theory Spec2Isabelle
  imports Main
begin

section \<open>Values, records and frames\<close>

text \<open>
  The dashboard of \<^verbatim>\<open>main.py\<close> moves rows of the table
  \<^verbatim>\<open>car_parts_monthly_sales\<close> through a dataframe. A cell is a JSON scalar as the
  database client delivers it: an integer, a string, a boolean or null. Floating-point
  cells and nested objects are outside this model. A missing cell of a frame (NaN) and
  the JSON null are both \<open>NullV\<close>: neither converts to an integer.
\<close>

datatype val = IntV int | StrV string | BoolV bool | NullV

datatype error =
    KeyError string
  | ValueError
  | TypeError
  | OverflowError
  | NameError string
  | ForecastError

text \<open>
  A database row is a Python dict: its keys in insertion order, each bound once.
  A frame is column-major, as the dataframe library stores it: the columns in order,
  each with its label and its cells.
\<close>

type_synonym json_record = "(string \<times> val) list"

type_synonym frame = "(string \<times> val list) list"

definition columns :: "frame \<Rightarrow> string list" where
  "columns f = map fst f"

text \<open>\<^verbatim>\<open>Series.unique()\<close>: the distinct values in order of first appearance.\<close>

definition unique :: "'a list \<Rightarrow> 'a list" where
  "unique xs = rev (remdups (rev xs))"

text \<open>\<^verbatim>\<open>df[label]\<close>: the cells of a column, or KeyError.\<close>

definition getitem :: "frame \<Rightarrow> string \<Rightarrow> error + val list" where
  "getitem f c = (case map_of f c of None \<Rightarrow> Inl (KeyError c) | Some vs \<Rightarrow> Inr vs)"

text \<open>\<^verbatim>\<open>df[label] = cells\<close>: replaces the column where it stands, or appends it.\<close>

definition setitem :: "frame \<Rightarrow> string \<Rightarrow> val list \<Rightarrow> frame" where
  "setitem f c vs =
     (if c \<in> set (columns f) then map (\<lambda>(l, ws). if l = c then (l, vs) else (l, ws)) f
      else f @ [(c, vs)])"

text \<open>\<^verbatim>\<open>series.isin(ids)\<close> and \<^verbatim>\<open>series == id\<close>: boolean masks.\<close>

definition isin :: "val list \<Rightarrow> val list \<Rightarrow> bool list" where
  "isin vs ids = map (\<lambda>v. v \<in> set ids) vs"

definition eq_mask :: "val list \<Rightarrow> val \<Rightarrow> bool list" where
  "eq_mask vs i = map (\<lambda>v. v = i) vs"

text \<open>\<^verbatim>\<open>df[mask]\<close>: the rows where the mask holds, in every column.\<close>

definition select_cells :: "bool list \<Rightarrow> val list \<Rightarrow> val list" where
  "select_cells bs vs = map snd (filter fst (zip bs vs))"

definition select_rows :: "bool list \<Rightarrow> frame \<Rightarrow> frame" where
  "select_rows bs f = map (\<lambda>(l, vs). (l, select_cells bs vs)) f"

text \<open>\<^verbatim>\<open>df.drop(labels, axis=1)\<close>: KeyError when a label is not a column.\<close>

definition drop_cols :: "frame \<Rightarrow> string list \<Rightarrow> error + frame" where
  "drop_cols f labels =
     (case filter (\<lambda>l. l \<notin> set (columns f)) labels of
        [] \<Rightarrow> Inr (filter (\<lambda>(l, vs). l \<notin> set labels) f)
      | l # _ \<Rightarrow> Inl (KeyError l))"

text \<open>\<^verbatim>\<open>df.rename(mapping, axis=1)\<close>: labels outside the mapping stay.\<close>

definition rename_label :: "(string \<times> string) list \<Rightarrow> string \<Rightarrow> string" where
  "rename_label m l = (case map_of m l of None \<Rightarrow> l | Some l' \<Rightarrow> l')"

definition rename_cols :: "(string \<times> string) list \<Rightarrow> frame \<Rightarrow> frame" where
  "rename_cols m f = map (\<lambda>(l, vs). (rename_label m l, vs)) f"

section \<open>Integer conversion\<close>

text \<open>
  \<^verbatim>\<open>astype(int)\<close> on a column of objects applies Python's \<open>int\<close> to each cell and
  stores the result as a signed 64-bit integer; a value outside that range does not fit
  and raises OverflowError. For a string of ASCII text, \<open>int\<close> skips white space
  (tab, line feed, vertical tab, form feed, carriage return, space) on both sides, reads
  an optional sign, then decimal digits, where single underscores may stand between
  digits.
\<close>

definition is_space :: "char \<Rightarrow> bool" where
  "is_space c = (let n = (of_char c :: nat) in (9 \<le> n \<and> n \<le> 13) \<or> n = 32)"

definition is_digit :: "char \<Rightarrow> bool" where
  "is_digit c = (let n = (of_char c :: nat) in 48 \<le> n \<and> n \<le> 57)"

definition digit_val :: "char \<Rightarrow> int" where
  "digit_val c = int (of_char c) - 48"

fun digits_value :: "int \<Rightarrow> string \<Rightarrow> int option" where
  "digits_value acc [] = Some acc"
| "digits_value acc [c] = (if is_digit c then Some (acc * 10 + digit_val c) else None)"
| "digits_value acc (c # d # ds) =
     (if c = CHR ''_'' then
        (if is_digit d then digits_value (acc * 10 + digit_val d) ds else None)
      else if is_digit c then digits_value (acc * 10 + digit_val c) (d # ds)
      else None)"

definition strip :: "string \<Rightarrow> string" where
  "strip s = rev (dropWhile is_space (rev (dropWhile is_space s)))"

definition unsigned_value :: "string \<Rightarrow> int option" where
  "unsigned_value s =
     (case s of [] \<Rightarrow> None
      | d # ds \<Rightarrow> if is_digit d then digits_value (digit_val d) ds else None)"

definition py_int_str :: "string \<Rightarrow> int option" where
  "py_int_str s =
     (case strip s of
        [] \<Rightarrow> None
      | c # cs \<Rightarrow>
          if c = CHR ''-'' then map_option uminus (unsigned_value cs)
          else if c = CHR ''+'' then unsigned_value cs
          else unsigned_value (c # cs))"

definition int64 :: "int \<Rightarrow> error + int" where
  "int64 n = (if - (2 ^ 63) \<le> n \<and> n < 2 ^ 63 then Inr n else Inl OverflowError)"

fun to_int :: "val \<Rightarrow> error + int" where
  "to_int (IntV n) = int64 n"
| "to_int (BoolV b) = Inr (if b then 1 else 0)"
| "to_int (StrV s) = (case py_int_str s of None \<Rightarrow> Inl ValueError | Some n \<Rightarrow> int64 n)"
| "to_int NullV = Inl TypeError"

text \<open>The conversion runs down the column and stops at the first cell that fails.\<close>

fun astype_int :: "val list \<Rightarrow> error + val list" where
  "astype_int [] = Inr []"
| "astype_int (v # vs) =
     (case to_int v of
        Inl e \<Rightarrow> Inl e
      | Inr n \<Rightarrow> (case astype_int vs of Inl e \<Rightarrow> Inl e | Inr ns \<Rightarrow> Inr (IntV n # ns)))"

section \<open>The dataframe builder\<close>

text \<open>
  \<^verbatim>\<open>pd.json_normalize(rows)\<close> on flat records: the columns are the keys in order of
  first appearance over all records; a record without a key has a missing cell there.
\<close>

definition cell :: "json_record \<Rightarrow> string \<Rightarrow> val" where
  "cell r k = (case map_of r k of None \<Rightarrow> NullV | Some v \<Rightarrow> v)"

definition json_normalize :: "json_record list \<Rightarrow> frame" where
  "json_normalize rs =
     map (\<lambda>k. (k, map (\<lambda>r. cell r k) rs)) (unique (concat (map (map fst) rs)))"

text \<open>
  \<^verbatim>\<open>create_dataframe\<close>, with the result of \<^verbatim>\<open>run_query()\<close> as its argument:
  \<^verbatim>\<open>df = pd.json_normalize(rows); df["volume"] = df["volume"].astype(int); return df\<close>.
\<close>

definition create_dataframe :: "json_record list \<Rightarrow> error + frame" where
  "create_dataframe rs =
     (let df = json_normalize rs in
      case getitem df ''volume'' of
        Inl e \<Rightarrow> Inl e
      | Inr vs \<Rightarrow> (case astype_int vs of Inl e \<Rightarrow> Inl e | Inr ns \<Rightarrow> Inr (setitem df ''volume'' ns)))"

section \<open>The store, the global name and the page\<close>

text \<open>
  Frames are objects: a name holds a reference, and \<^verbatim>\<open>rename(..., inplace=True)\<close>
  changes the object it is called on. The store is a list of frames, an address is an
  index into it. The module-level name \<^verbatim>\<open>df\<close> is unbound until the script body
  assigns it. The trace lists, in order, what the script shows on the page and its calls
  of the forecast runner and of the forecasting library.
\<close>

type_synonym addr = nat

type_synonym line = "val \<times> val list \<times> val list"

datatype event =
    Title string
  | Subheader string
  | Multiselect string "val list"
  | Pyplot "line list"
  | Expander string
  | Warning string
  | Slider string int int int
  | Button string
  | Predict "val list" int
  | Forecast frame int
  | DownloadButton string string string string

record state =
  heap :: "frame list"
  df :: "addr option"
  trace :: "event list"

definition alloc :: "frame \<Rightarrow> state \<Rightarrow> addr \<times> state" where
  "alloc f s = (length (heap s), s\<lparr>heap := heap s @ [f]\<rparr>)"

definition store :: "addr \<Rightarrow> frame \<Rightarrow> state \<Rightarrow> state" where
  "store a f s = s\<lparr>heap := (heap s)[a := f]\<rparr>"

definition emit :: "event \<Rightarrow> state \<Rightarrow> state" where
  "emit e s = s\<lparr>trace := trace s @ [e]\<rparr>"

section \<open>The plotter\<close>

text \<open>
  \<^verbatim>\<open>df[df["parts_id"] == id][label]\<close>, as the loop of \<^verbatim>\<open>plot_volume\<close> reads it:
  the global name first, then the identifier column, then the column of the selected rows.
\<close>

definition series_of :: "state \<Rightarrow> val \<Rightarrow> string \<Rightarrow> error + val list" where
  "series_of s i c =
     (case df s of
        None \<Rightarrow> Inl (NameError ''df'')
      | Some a \<Rightarrow>
          (case getitem (heap s ! a) ''parts_id'' of
             Inl e \<Rightarrow> Inl e
           | Inr col \<Rightarrow> getitem (select_rows (eq_mask col i) (heap s ! a)) c))"

fun plot_lines :: "state \<Rightarrow> val list \<Rightarrow> error + line list" where
  "plot_lines s [] = Inr []"
| "plot_lines s (i # ids) =
     (case series_of s i ''date'' of
        Inl e \<Rightarrow> Inl e
      | Inr x \<Rightarrow>
          (case series_of s i ''volume'' of
             Inl e \<Rightarrow> Inl e
           | Inr y \<Rightarrow>
               (case plot_lines s ids of Inl e \<Rightarrow> Inl e | Inr ls \<Rightarrow> Inr ((i, x, y) # ls))))"

definition plot_volume :: "val list \<Rightarrow> state \<Rightarrow> (error + unit) \<times> state" where
  "plot_volume ids s =
     (case plot_lines s ids of
        Inl e \<Rightarrow> (Inl e, s)
      | Inr ls \<Rightarrow> (Inr (), emit (Pyplot ls) s))"

section \<open>The dataset formatter\<close>

text \<open>
  \<^verbatim>\<open>model_df = df[df['parts_id'].isin(ids)]\<close> makes a new frame,
  \<^verbatim>\<open>model_df = model_df.drop(['id'], axis=1)\<close> makes another, and
  \<^verbatim>\<open>model_df.rename({...}, axis=1, inplace=True)\<close> changes that last frame where it
  lies. The result is the address of that frame.
\<close>

definition schema :: "(string \<times> string) list" where
  "schema = [(''parts_id'', ''unique_id''), (''date'', ''ds''), (''volume'', ''y'')]"

definition format_dataset :: "val list \<Rightarrow> state \<Rightarrow> (error + addr) \<times> state" where
  "format_dataset ids s =
     (case df s of
        None \<Rightarrow> (Inl (NameError ''df''), s)
      | Some a \<Rightarrow>
          (case getitem (heap s ! a) ''parts_id'' of
             Inl e \<Rightarrow> (Inl e, s)
           | Inr col \<Rightarrow>
               (let (m1, s1) = alloc (select_rows (isin col ids) (heap s ! a)) s in
                case drop_cols (heap s1 ! m1) [''id''] of
                  Inl e \<Rightarrow> (Inl e, s1)
                | Inr f2 \<Rightarrow>
                    (let (m2, s2) = alloc f2 s1;
                         s3 = store m2 (rename_cols schema (heap s2 ! m2)) s2
                     in (Inr m2, s3)))))"

section \<open>The forecast runner\<close>

text \<open>
  The forecasting library is not part of this program: \<^verbatim>\<open>create_sf_object\<close> followed
  by \<^verbatim>\<open>sf.forecast(h=horizon)\<close> is a parameter, a function from the input frame and the
  horizon to a forecast frame or a failure. The forecast frame carries the series
  identifier as its leading column \<^verbatim>\<open>unique_id\<close>, as \<^verbatim>\<open>to_csv\<close> writes it, and its
  forecast values as the text that \<^verbatim>\<open>to_csv\<close> prints for them.
\<close>

type_synonym forecaster = "frame \<Rightarrow> int \<Rightarrow> error + frame"

function show_nat :: "nat \<Rightarrow> string" where
  "show_nat n =
     (if n < 10 then [char_of (48 + n)]
      else show_nat (n div 10) @ [char_of (48 + n mod 10)])"
  by pat_completeness auto
termination
  by (relation "measure id") auto

definition show_int :: "int \<Rightarrow> string" where
  "show_int n = (if n < 0 then CHR ''-'' # show_nat (nat (- n)) else show_nat (nat n))"

fun show_val :: "val \<Rightarrow> string" where
  "show_val (IntV n) = show_int n"
| "show_val (StrV s) = s"
| "show_val (BoolV b) = (if b then ''True'' else ''False'')"
| "show_val NullV = []"

text \<open>
  \<^verbatim>\<open>to_csv(header=True)\<close>: one record for the labels, one for each row; a field with
  a comma, a quote or a line break is quoted, its quotes doubled; every record ends with
  a line feed.
\<close>

definition needs_quotes :: "string \<Rightarrow> bool" where
  "needs_quotes s = (\<exists>c \<in> set s. c = CHR '','' \<or> c = CHR 0x22 \<or> c = CHR 0x0A \<or> c = CHR 0x0D)"

definition csv_field :: "string \<Rightarrow> string" where
  "csv_field s =
     (if needs_quotes s
      then CHR 0x22 # concat (map (\<lambda>c. if c = CHR 0x22 then [c, c] else [c]) s) @ [CHR 0x22]
      else s)"

fun join :: "string \<Rightarrow> string list \<Rightarrow> string" where
  "join sep [] = []"
| "join sep [x] = x"
| "join sep (x # y # ys) = x @ sep @ join sep (y # ys)"

definition frame_rows :: "frame \<Rightarrow> val list list" where
  "frame_rows f = transpose (map snd f)"

definition csv_records :: "frame \<Rightarrow> string list list" where
  "csv_records f = columns f # map (map show_val) (frame_rows f)"

definition to_csv :: "frame \<Rightarrow> string" where
  "to_csv f = concat (map (\<lambda>r. join '','' (map csv_field r) @ [CHR 0x0A]) (csv_records f))"


text \<open>
  \<^verbatim>\<open>make_predictions(ids, horizon)\<close>: format, hand the frame and the horizon to the
  library, serialise what it returns.
\<close>

definition make_predictions ::
  "forecaster \<Rightarrow> val list \<Rightarrow> int \<Rightarrow> state \<Rightarrow> (error + string) \<times> state" where
  "make_predictions lib ids horizon s =
     (case format_dataset ids (emit (Predict ids horizon) s) of
        (Inl e, s1) \<Rightarrow> (Inl e, s1)
      | (Inr m, s1) \<Rightarrow>
          (let s2 = emit (Forecast (heap s1 ! m) horizon) s1 in
           case lib (heap s1 ! m) horizon of
             Inl e \<Rightarrow> (Inl e, s2)
           | Inr forecast_df \<Rightarrow> (Inr (to_csv forecast_df), s2)))"

section \<open>The script body\<close>

text \<open>
  One run of the script. What the user did is an argument: the selection the multiselect
  returns, the value of the slider, whether the button was pressed; so are the rows that
  \<^verbatim>\<open>run_query()\<close> returns. An exception ends the run. The memoising decorators are
  left out: within one run they do not change what a function returns.
\<close>

definition forecast_panel ::
  "forecaster \<Rightarrow> val list \<Rightarrow> int \<Rightarrow> bool \<Rightarrow> state \<Rightarrow> (error + unit) \<times> state" where
  "forecast_panel lib product_ids hsel forecast_btn s =
     (if length product_ids = 0
      then (Inr (), emit (Warning ''Select at least one product ID to forecast'') s)
      else
        (let s1 = emit (Slider ''Horizon'' 1 12 1) s;
             horizon = hsel;
             s2 = emit (Button ''Forecast'') s1
         in if forecast_btn then
              (case make_predictions lib product_ids horizon s2 of
                 (Inl e, s3) \<Rightarrow> (Inl e, s3)
               | (Inr csv_file, s3) \<Rightarrow>
                   (Inr (), emit (DownloadButton ''Download Prediction'' csv_file
                                    ''prediction.csv'' ''text/csv'') s3))
            else (Inr (), s2)))"

definition main ::
  "forecaster \<Rightarrow> json_record list \<Rightarrow> val list \<Rightarrow> int \<Rightarrow> bool \<Rightarrow> state
     \<Rightarrow> (error + unit) \<times> state" where
  "main lib db sel hsel forecast_btn s0 =
     (let s1 = emit (Title ''Forecast product demand'') s0 in
      case create_dataframe db of
        Inl e \<Rightarrow> (Inl e, s1)
      | Inr f \<Rightarrow>
          (let (a, s2) = alloc f s1;
               s3 = s2\<lparr>df := Some a\<rparr>;
               s4 = emit (Subheader ''Select a product'') s3
           in case getitem (heap s4 ! a) ''parts_id'' of
                Inl e \<Rightarrow> (Inl e, s4)
              | Inr col \<Rightarrow>
                  (let s5 = emit (Multiselect ''Select product ID'' (unique col)) s4;
                       product_ids = sel
                   in case plot_volume product_ids s5 of
                        (Inl e, s6) \<Rightarrow> (Inl e, s6)
                      | (Inr _, s6) \<Rightarrow>
                          forecast_panel lib product_ids hsel forecast_btn
                            (emit (Expander ''Forecast'') s6))))"

definition init_state :: state where
  "init_state = \<lparr>heap = [], df = None, trace = []\<rparr>"

section \<open>Notions used in the properties\<close>




text \<open>A store that holds one frame, bound to the global name.\<close>

definition with_df :: "frame \<Rightarrow> state" where
  "with_df f = \<lparr>heap = [f], df = Some 0, trace = []\<rparr>"

text \<open>The frame that \<^verbatim>\<open>format_dataset\<close> returns, read from the store it leaves.\<close>

definition formatted :: "val list \<Rightarrow> state \<Rightarrow> error + frame" where
  "formatted ids s =
     (case format_dataset ids s of (Inl e, s') \<Rightarrow> Inl e | (Inr m, s') \<Rightarrow> Inr (heap s' ! m))"

text \<open>The same three steps on a frame alone, without the store.\<close>

definition format_frame :: "val list \<Rightarrow> frame \<Rightarrow> error + frame" where
  "format_frame ids f =
     (case getitem f ''parts_id'' of
        Inl e \<Rightarrow> Inl e
      | Inr col \<Rightarrow>
          (case drop_cols (select_rows (isin col ids) f) [''id''] of
             Inl e \<Rightarrow> Inl e
           | Inr f2 \<Rightarrow> Inr (rename_cols schema f2)))"

text \<open>The events of the forecast action: slider, button, runner, library, download.\<close>

fun forecast_action :: "event \<Rightarrow> bool" where
  "forecast_action (Slider l lo hi st) = True"
| "forecast_action (Button l) = True"
| "forecast_action (Predict ids h) = True"
| "forecast_action (Forecast f h) = True"
| "forecast_action (DownloadButton l d n m) = True"
| "forecast_action e = False"

text \<open>
  What the program relies on from the forecasting library: a forecast that succeeds has
  columns of one length and holds, for each series of its input, as many rows as the
  horizon, and no row of any other series.
\<close>

definition series_ids :: "frame \<Rightarrow> val list" where
  "series_ids f = (case getitem f ''unique_id'' of Inl e \<Rightarrow> [] | Inr vs \<Rightarrow> vs)"



text \<open>
  A forecaster of that kind, to run the program on: for every series, in order of first
  appearance, periods 1 to h with the value 0.0.
\<close>

definition constant_forecaster :: forecaster where
  "constant_forecaster f h =
     (case getitem f ''unique_id'' of
        Inl e \<Rightarrow> Inl e
      | Inr vs \<Rightarrow>
          (let us = unique vs; n = nat h in
           Inr [(''unique_id'', concat (map (\<lambda>u. replicate n u) us)),
                (''ds'', concat (map (\<lambda>u. map (\<lambda>k. IntV (int k)) [1..<Suc n]) us)),
                (''CrostonOptimized'', concat (map (\<lambda>u. replicate n (StrV ''0.0'')) us))]))"

text \<open>
  Example tables. \<open>sales_rows\<close> has the four fields of the database table;
  \<open>spec_rows\<close> and \<open>spec_rows_parts\<close> are the two records of the specification's
  example, with their three fields, the identifier under the key \<^verbatim>\<open>id\<close> or under the
  key \<^verbatim>\<open>parts_id\<close>.
\<close>

definition sales_rows :: "json_record list" where
  "sales_rows =
     [[(''id'', IntV 1), (''parts_id'', StrV ''A''), (''date'', StrV ''2023-01-01''),
       (''volume'', StrV ''5'')],
      [(''id'', IntV 2), (''parts_id'', StrV ''A''), (''date'', StrV ''2023-02-01''),
       (''volume'', StrV ''3'')]]"



definition sales_frame :: frame where
  "sales_frame =
     [(''id'', [IntV 1, IntV 2]), (''parts_id'', [StrV ''A'', StrV ''A'']),
      (''date'', [StrV ''2023-01-01'', StrV ''2023-02-01'']), (''volume'', [IntV 5, IntV 3])]"

section \<open>Properties of the dataframe builder\<close>













section \<open>Properties of the dataset formatter\<close>

lemma select_cells_map: "select_cells (map P vs) vs = filter P vs"
  by (induction vs) (simp_all add: select_cells_def)

lemma getitem_select_rows:
  "getitem (select_rows bs f) c = map_sum id (select_cells bs) (getitem f c)"
  by (simp add: getitem_def select_rows_def map_of_map split: option.splits)

lemma columns_select_rows: "columns (select_rows bs f) = columns f"
  by (simp add: columns_def select_rows_def case_prod_unfold)

lemma drop_id:
  "drop_cols f [''id''] =
     (if ''id'' \<in> set (columns f) then Inr (filter (\<lambda>(l, vs). l \<noteq> ''id'') f)
      else Inl (KeyError ''id''))"
  by (simp add: drop_cols_def)

lemma map_of_filter_neq:
  "c \<noteq> d \<Longrightarrow> map_of (filter (\<lambda>(l, vs). l \<noteq> d) f) c = map_of f c"
  by (induction f) auto

lemma rename_label_id: "rename_label schema l = ''id'' \<longleftrightarrow> l = ''id''"
  by (simp add: rename_label_def schema_def)

lemma rename_label_unique_id:
  "rename_label schema l = ''unique_id'' \<longleftrightarrow> l = ''parts_id'' \<or> l = ''unique_id''"
  by (auto simp add: rename_label_def schema_def)

lemma map_of_rename_unique_id:
  "''unique_id'' \<notin> set (columns f) \<Longrightarrow>
     map_of (rename_cols schema f) ''unique_id'' = map_of f ''parts_id''"
proof (induction f)
  case Nil
  then show ?case by (simp add: rename_cols_def)
next
  case (Cons p f)
  obtain l vs where p: "p = (l, vs)" by (cases p)
  from Cons.prems have "l \<noteq> ''unique_id''" "''unique_id'' \<notin> set (columns f)"
    by (auto simp add: p columns_def)
  with Cons.IH show ?case
    using rename_label_unique_id [of l] by (auto simp add: p rename_cols_def)
qed

lemma id_not_in_renamed:
  "''id'' \<notin> set (columns (rename_cols schema (filter (\<lambda>(l, vs). l \<noteq> ''id'') f)))"
proof
  assume "''id'' \<in> set (columns (rename_cols schema (filter (\<lambda>(l, vs). l \<noteq> ''id'') f)))"
  then obtain l vs where "(l, vs) \<in> set f" "l \<noteq> ''id''" "rename_label schema l = ''id''"
    by (auto simp: columns_def rename_cols_def)
  then show False by (simp add: rename_label_id)
qed

lemma formatted_eq:
  assumes "df s = Some a"
  shows "formatted ids s = format_frame ids (heap s ! a)"
  using assms
  by (auto simp: formatted_def format_dataset_def format_frame_def alloc_def store_def
      nth_append Let_def split: sum.splits)


lemma columns_filter_subset:
  "set (columns (filter P f)) \<subseteq> set (columns f)"
  by (auto simp: columns_def)

text \<open>
  What \<^verbatim>\<open>format_dataset\<close> returns on a sales table without a column
  \<^verbatim>\<open>unique_id\<close>: no column \<^verbatim>\<open>id\<close>, and as identifier column the selected cells of
  \<^verbatim>\<open>parts_id\<close>.
\<close>

lemma formatted_unique_id:
  assumes d: "df s = Some a"
    and u: "''unique_id'' \<notin> set (columns (heap s ! a))"
    and r: "formatted ids s = Inr f"
  shows "''id'' \<notin> set (columns f)
    \<and> (\<exists>col. getitem (heap s ! a) ''parts_id'' = Inr col
          \<and> getitem f ''unique_id'' = Inr (filter (\<lambda>v. v \<in> set ids) col))"
proof -
  let ?F = "heap s ! a"
  from d r have ff: "format_frame ids ?F = Inr f" by (simp add: formatted_eq)
  then obtain col where col: "getitem ?F ''parts_id'' = Inr col"
    by (auto simp: format_frame_def split: sum.splits)
  let ?S = "select_rows (isin col ids) ?F"
  let ?D = "filter (\<lambda>(l, vs). l \<noteq> ''id'') ?S"
  from ff col have f: "f = rename_cols schema ?D"
    by (auto simp: format_frame_def drop_id split: sum.splits if_splits)
  have no_id: "''id'' \<notin> set (columns f)"
    unfolding f by (rule id_not_in_renamed)
  have "''unique_id'' \<notin> set (columns ?D)"
    using u columns_filter_subset [of "\<lambda>(l, vs). l \<noteq> ''id''" ?S]
    by (auto simp: columns_select_rows)
  then have "map_of f ''unique_id'' = map_of ?D ''parts_id''"
    unfolding f by (rule map_of_rename_unique_id)
  also have "\<dots> = map_of ?S ''parts_id''"
    by (rule map_of_filter_neq) simp
  also have "\<dots> = Some (select_cells (isin col ids) col)"
    using getitem_select_rows [of "isin col ids" ?F "''parts_id''"] col
    by (simp add: getitem_def split: option.splits)
  also have "select_cells (isin col ids) col = filter (\<lambda>v. v \<in> set ids) col"
    by (simp add: isin_def select_cells_map)
  finally have g: "getitem f ''unique_id'' = Inr (filter (\<lambda>v. v \<in> set ids) col)"
    by (simp add: getitem_def)
  with no_id col show ?thesis by blast
qed

text \<open>
  C1 (as amended). When \<^verbatim>\<open>format_dataset\<close> returns a frame, on a sales table that has
  no column named \<^verbatim>\<open>unique_id\<close> already, the column \<^verbatim>\<open>id\<close> is not among its columns
  and its identifier column holds the rows of the table whose identifier was requested:
  its set of identifier values is the set of requested identifiers that have rows in the
  table.
\<close>

theorem format_dataset_identifiers:
  assumes d: "df s = Some a"
    and u: "''unique_id'' \<notin> set (columns (heap s ! a))"
    and r: "formatted ids s = Inr f"
  shows "''id'' \<notin> set (columns f)
    \<and> (\<exists>col. getitem (heap s ! a) ''parts_id'' = Inr col
          \<and> getitem f ''unique_id'' = Inr (filter (\<lambda>v. v \<in> set ids) col)
          \<and> set (series_ids f) = set ids \<inter> set col)"
proof -
  from formatted_unique_id [OF d u r] obtain col where
    "''id'' \<notin> set (columns f)" "getitem (heap s ! a) ''parts_id'' = Inr col"
    and g: "getitem f ''unique_id'' = Inr (filter (\<lambda>v. v \<in> set ids) col)"
    by blast
  moreover from g have "set (series_ids f) = set ids \<inter> set col"
    by (auto simp: series_ids_def)
  ultimately show ?thesis by blast
qed

theorem format_dataset_identifiers_witness:
  "df (with_df sales_frame) = Some 0
   \<and> ''unique_id'' \<notin> set (columns (heap (with_df sales_frame) ! 0))
   \<and> formatted [StrV ''A''] (with_df sales_frame) =
       Inr [(''unique_id'', [StrV ''A'', StrV ''A'']),
            (''ds'', [StrV ''2023-01-01'', StrV ''2023-02-01'']),
            (''y'', [IntV 5, IntV 3])]
   \<and> ''id'' \<notin> set (columns [(''unique_id'', [StrV ''A'', StrV ''A'']),
            (''ds'', [StrV ''2023-01-01'', StrV ''2023-02-01'']),
            (''y'', [IntV 5, IntV 3])])
   \<and> getitem sales_frame ''parts_id'' = Inr [StrV ''A'', StrV ''A'']"
  using format_dataset_identifiers [of "with_df sales_frame" 0 "[StrV ''A'']"]
  by (simp add: with_df_def sales_frame_def formatted_def format_dataset_def alloc_def
      store_def getitem_def columns_def isin_def select_rows_def select_cells_def
      drop_cols_def rename_cols_def rename_label_def schema_def)

text \<open>
  The claim as it stands fails for a requested identifier without rows: \<open>B\<close> is
  requested and is not among the identifier values of the result.
\<close>

theorem format_dataset_absent_identifier_counterexample:
  "formatted [StrV ''A'', StrV ''B''] (with_df sales_frame) =
       Inr [(''unique_id'', [StrV ''A'', StrV ''A'']),
            (''ds'', [StrV ''2023-01-01'', StrV ''2023-02-01'']),
            (''y'', [IntV 5, IntV 3])]
   \<and> set [StrV ''A'', StrV ''A''] \<noteq> set [StrV ''A'', StrV ''B'']"
  by (simp add: with_df_def sales_frame_def formatted_def format_dataset_def alloc_def
      store_def getitem_def columns_def isin_def select_rows_def select_cells_def
      drop_cols_def rename_cols_def rename_label_def schema_def)

text \<open>
  C9. Two identifier lists with the same set of identifiers, in any order and with or
  without repetitions, give the same result of \<^verbatim>\<open>format_dataset\<close> on the same store.
\<close>

theorem format_dataset_set_of_ids:
  assumes e: "set ids1 = set ids2"
  shows "format_dataset ids1 s = format_dataset ids2 s"
  unfolding format_dataset_def isin_def e by (rule refl)

theorem format_dataset_set_of_ids_witness:
  "set [StrV ''A'', StrV ''B'', StrV ''A''] = set [StrV ''B'', StrV ''A'']
   \<and> format_dataset [StrV ''A'', StrV ''B'', StrV ''A''] (with_df sales_frame)
       = format_dataset [StrV ''B'', StrV ''A''] (with_df sales_frame)
   \<and> formatted [StrV ''B'', StrV ''A''] (with_df sales_frame) =
       Inr [(''unique_id'', [StrV ''A'', StrV ''A'']),
            (''ds'', [StrV ''2023-01-01'', StrV ''2023-02-01'']),
            (''y'', [IntV 5, IntV 3])]"
proof -
  have e: "set [StrV ''A'', StrV ''B'', StrV ''A''] = set [StrV ''B'', StrV ''A'']"
    by auto
  show ?thesis
    using e format_dataset_set_of_ids [OF e, of "with_df sales_frame"]
    by (simp add: with_df_def sales_frame_def formatted_def format_dataset_def alloc_def
      store_def getitem_def columns_def isin_def select_rows_def select_cells_def
      drop_cols_def rename_cols_def rename_label_def schema_def)
qed

text \<open>
  C8. \<^verbatim>\<open>format_dataset\<close> leaves the global name \<^verbatim>\<open>df\<close> bound as it was and every frame
  that was in the store as it was, the sales table among them: the frame it returns is a
  new object, and the in-place rename acts on that one.
\<close>

theorem format_dataset_leaves_df:
  assumes "format_dataset ids s = (r, s')"
  shows "df s' = df s \<and> trace s' = trace s
    \<and> (\<forall>a < length (heap s). heap s' ! a = heap s ! a)
    \<and> (\<forall>m. r = Inr m \<longrightarrow> length (heap s) \<le> m \<and> m < length (heap s'))"
  using assms
  by (auto simp: format_dataset_def alloc_def store_def nth_append Let_def
      split: option.splits sum.splits)

theorem format_dataset_leaves_df_witness:
  "format_dataset [StrV ''A''] (with_df sales_frame) =
     (Inr 2, \<lparr>heap = [sales_frame,
                       select_rows [True, True] sales_frame,
                       [(''unique_id'', [StrV ''A'', StrV ''A'']),
                        (''ds'', [StrV ''2023-01-01'', StrV ''2023-02-01'']),
                        (''y'', [IntV 5, IntV 3])]],
               df = Some 0, trace = []\<rparr>)
   \<and> df (with_df sales_frame) = Some 0
   \<and> (0::nat) < length (heap (with_df sales_frame))
   \<and> heap (with_df sales_frame) ! 0 = sales_frame"
  using format_dataset_leaves_df [of "[StrV ''A'']" "with_df sales_frame"]
  by (simp add: with_df_def sales_frame_def format_dataset_def alloc_def
      store_def getitem_def columns_def isin_def select_rows_def select_cells_def
      drop_cols_def rename_cols_def rename_label_def schema_def)


section \<open>The example of the specification\<close>



section \<open>The global name before its assignment\<close>

text \<open>
  C10 (as amended). While the global name \<^verbatim>\<open>df\<close> is unbound, \<^verbatim>\<open>format_dataset\<close>
  fails with a NameError for every identifier list, and \<^verbatim>\<open>plot_volume\<close> fails with a
  NameError for every identifier list that is not empty; neither changes the state.
\<close>

theorem unbound_df_raises:
  assumes "df s = None"
  shows "format_dataset ids s = (Inl (NameError ''df''), s)
    \<and> (ids \<noteq> [] \<longrightarrow> plot_volume ids s = (Inl (NameError ''df''), s))"
  using assms
  by (cases ids) (simp_all add: format_dataset_def plot_volume_def series_of_def)

theorem unbound_df_raises_witness:
  "df init_state = None \<and> [StrV ''A''] \<noteq> []
   \<and> format_dataset [StrV ''A''] init_state = (Inl (NameError ''df''), init_state)
   \<and> plot_volume [StrV ''A''] init_state = (Inl (NameError ''df''), init_state)"
  using unbound_df_raises [of init_state "[StrV ''A'']"]
  by (simp add: init_state_def)

text \<open>
  With an empty identifier list the loop of \<^verbatim>\<open>plot_volume\<close> never reads the name:
  the call returns and shows an empty chart.
\<close>

theorem plot_volume_unbound_df_counterexample:
  "df init_state = None
   \<and> plot_volume [] init_state = (Inr (), \<lparr>heap = [], df = None, trace = [Pyplot []]\<rparr>)"
  by (simp add: init_state_def plot_volume_def emit_def)

section \<open>Properties of the script body\<close>

lemma plot_volume_Nil: "plot_volume [] s = (Inr (), emit (Pyplot []) s)"
  by (simp add: plot_volume_def)

text \<open>
  C3. With an empty selection the forecast panel shows the warning and nothing else, and
  a whole run of the script emits no event of the forecast action: no slider, no button,
  no call of \<^verbatim>\<open>make_predictions\<close>, no call of the forecasting library, no download.
  A run that does not fail ends with the warning.
\<close>

theorem empty_selection_warns:
  assumes "main lib db [] hsel btn s0 = (r, s)"
  shows "forecast_panel lib [] hsel btn s' =
           (Inr (), emit (Warning ''Select at least one product ID to forecast'') s')
    \<and> (\<exists>evs. trace s = trace s0 @ evs \<and> (\<forall>e \<in> set evs. \<not> forecast_action e)
          \<and> (r = Inr () \<longrightarrow>
                evs \<noteq> [] \<and> last evs = Warning ''Select at least one product ID to forecast''))"
  using assms
  by (auto simp: main_def forecast_panel_def plot_volume_Nil emit_def alloc_def Let_def
      split: sum.splits)

theorem empty_selection_warns_witness:
  "main constant_forecaster sales_rows [] 3 True init_state =
     (Inr (),
      \<lparr>heap = [sales_frame], df = Some 0,
       trace = [Title ''Forecast product demand'', Subheader ''Select a product'',
                Multiselect ''Select product ID'' [StrV ''A''], Pyplot [],
                Expander ''Forecast'',
                Warning ''Select at least one product ID to forecast'']\<rparr>)
   \<and> \<not> forecast_action (Warning ''Select at least one product ID to forecast'')"
proof -
  have c: "create_dataframe sales_rows = Inr sales_frame"
    by (simp add: create_dataframe_def json_normalize_def unique_def cell_def getitem_def
      setitem_def columns_def py_int_str_def strip_def is_space_def unsigned_value_def
      is_digit_def digit_val_def int64_def sales_rows_def sales_frame_def)
  have m: "main constant_forecaster sales_rows [] 3 True init_state =
     (Inr (),
      \<lparr>heap = [sales_frame], df = Some 0,
       trace = [Title ''Forecast product demand'', Subheader ''Select a product'',
                Multiselect ''Select product ID'' [StrV ''A''], Pyplot [],
                Expander ''Forecast'',
                Warning ''Select at least one product ID to forecast'']\<rparr>)"
    by (simp add: main_def c init_state_def emit_def alloc_def plot_volume_def
        forecast_panel_def sales_frame_def getitem_def unique_def)
  show ?thesis
    using empty_selection_warns [OF m] m by simp
qed




section \<open>Properties of the forecast runner\<close>

lemma heap_emit [simp]: "heap (emit e s) = heap s" and df_emit [simp]: "df (emit e s) = df s"
  by (simp_all add: emit_def)



lemma count_list_le_Cons: "count_list us u \<le> count_list (x # us) u"
  by simp












end
